theory Spec2Isabelle
  imports Complex_Main "HOL-Library.Sublist"
begin

section \<open>Python values\<close>

text \<open>
  The parking spots of \<open>app.py\<close> are Python dicts with string keys. A dict is an
  association list in insertion order, its values are the JSON-like values below.
  A Python \<open>str\<close> is its UTF-8 encoding, one \<open>char\<close> per byte; every substring test of
  the source looks for an ASCII term, and a test for an ASCII term gives the same answer on
  the bytes as on the code points. Finite floats are the rationals they denote (the
  negative zero has no counterpart).
\<close>

datatype py_error = KeyError | IndexError | ValueError | TypeError | AttributeError

datatype jv =
    JNone
  | JBool bool
  | JInt int
  | JNum rat
  | JStr string
  | JList "jv list"
  | JDict "(string \<times> jv) list"

type_synonym dict = "(string \<times> jv) list"

text \<open>\<open>d.get(k, dflt)\<close> and \<open>d[k]\<close>.\<close>

definition py_get :: "dict \<Rightarrow> string \<Rightarrow> jv \<Rightarrow> jv" where
  "py_get d k dflt = (case map_of d k of Some v \<Rightarrow> v | None \<Rightarrow> dflt)"

definition py_item :: "dict \<Rightarrow> string \<Rightarrow> py_error + jv" where
  "py_item d k = (case map_of d k of Some v \<Rightarrow> Inr v | None \<Rightarrow> Inl KeyError)"

section \<open>Strings\<close>

text \<open>\<open>str.lower()\<close>: the ASCII capitals are mapped to their small letters.\<close>

definition lower_char :: "char \<Rightarrow> char" where
  "lower_char c =
     (case map_of (zip ''ABCDEFGHIJKLMNOPQRSTUVWXYZ'' ''abcdefghijklmnopqrstuvwxyz'') c of
        Some l \<Rightarrow> l
      | None \<Rightarrow> c)"

definition lower :: "string \<Rightarrow> string" where
  "lower s = map lower_char s"

text \<open>\<open>t in s\<close> on strings: \<open>t\<close> occurs in \<open>s\<close> as a contiguous block.\<close>

fun py_in :: "string \<Rightarrow> string \<Rightarrow> bool" where
  "py_in t [] = (t = [])"
| "py_in t (c # cs) = (prefix t (c # cs) \<or> py_in t cs)"

text \<open>\<open>any(term in s for term in terms)\<close>.\<close>

definition any_in :: "string list \<Rightarrow> string \<Rightarrow> bool" where
  "any_in terms s = list_ex (\<lambda>t. py_in t s) terms"

definition digit_char :: "nat \<Rightarrow> char" where
  "digit_char n = ''0123456789'' ! n"

fun show_nat :: "nat \<Rightarrow> string" where
  "show_nat n =
     (if n < 10 then [digit_char n] else show_nat (n div 10) @ [digit_char (n mod 10)])"

declare show_nat.simps [simp del]

definition show_int :: "int \<Rightarrow> string" where
  "show_int i = (if i < 0 then ''-'' @ show_nat (nat (- i)) else show_nat (nat i))"

text \<open>
  The format specification \<open>:.kf\<close>: the value is rounded to \<open>k\<close> decimals, ties to the
  even neighbour, and the sign of a negative value is kept even when the digits are all zero.
\<close>

definition round_half_even :: "rat \<Rightarrow> int" where
  "round_half_even x =
     (let f = \<lfloor>x\<rfloor>; d = x - of_int f
      in if d < 1 / 2 then f else if 1 / 2 < d then f + 1 else if even f then f else f + 1)"

definition fmt_f :: "nat \<Rightarrow> rat \<Rightarrow> string" where
  "fmt_f k x =
     (let m = nat (round_half_even (\<bar>x\<bar> * 10 ^ k));
          frac = show_nat (m mod 10 ^ k)
      in (if x < 0 then ''-'' else []) @ show_nat (m div 10 ^ k) @ ''.''
           @ replicate (k - length frac) (CHR ''0'') @ frac)"

text \<open>
  \<open>float(s)\<close> on the plain decimal numerals \<open>12\<close>, \<open>12.5\<close>, \<open>12.\<close> and \<open>.5\<close>. Python
  reads more (signs, exponents, padding); whatever is read here, Python reads as the same number.
\<close>

definition is_digit :: "char \<Rightarrow> bool" where
  "is_digit c = (c \<in> set ''0123456789'')"

definition digit_val :: "char \<Rightarrow> nat" where
  "digit_val c = (case map_of (zip ''0123456789'' [0, 1, 2, 3, 4, 5, 6, 7, 8, 9]) c of
                    Some n \<Rightarrow> n | None \<Rightarrow> 0)"

definition digits_val :: "string \<Rightarrow> nat" where
  "digits_val s = foldl (\<lambda>acc c. 10 * acc + digit_val c) 0 s"

definition py_float :: "string \<Rightarrow> py_error + rat" where
  "py_float s =
     (let ip = takeWhile is_digit s
      in case dropWhile is_digit s of
           [] \<Rightarrow> if ip = [] then Inl ValueError else Inr (of_nat (digits_val ip))
         | c # fp \<Rightarrow>
             if c = CHR ''.'' \<and> list_all is_digit fp \<and> (ip \<noteq> [] \<or> fp \<noteq> [])
             then Inr (of_nat (digits_val ip) + of_nat (digits_val fp) / 10 ^ length fp)
             else Inl ValueError)"

text \<open>\<open>s.replace(old, '')\<close> for a non-empty \<open>old\<close>: every occurrence is removed, left to right.\<close>

function remove_all :: "string \<Rightarrow> string \<Rightarrow> string" where
  "remove_all old [] = []"
| "remove_all old (c # cs) =
     (if old \<noteq> [] \<and> prefix old (c # cs) then remove_all old (drop (length old) (c # cs))
      else c # remove_all old cs)"
  by pat_completeness auto
termination
  by (relation "measure (\<lambda>(old, s). length s)") (auto simp: Suc_le_eq)

text \<open>The currency prefix of the source, the two code points U+00AC U+00A3.\<close>

definition currency :: string where
  "currency = [CHR 0xC2, CHR 0xAC, CHR 0xC2, CHR 0xA3]"

section \<open>Scorer and classifier\<close>

text \<open>\<open>_calculate_score\<close>.\<close>

definition calculate_score :: "int \<Rightarrow> string \<Rightarrow> int" where
  "calculate_score distance parking_type =
     (let score = 50;
          score = (if distance < 200 then score + 25
                   else if distance < 500 then score + 20
                   else if distance < 1000 then score + 15
                   else score);
          score = (if parking_type = ''parking-garage'' then score + 10
                   else if parking_type = ''ev-charging'' then score + 15
                   else score)
      in max 0 (min 100 score))"

text \<open>
  \<open>_estimate_availability\<close>; the hour that \<open>datetime.datetime.now().hour\<close> returns is an
  argument.
\<close>

definition estimate_availability :: "int \<Rightarrow> string \<Rightarrow> string" where
  "estimate_availability current_hour parking_type =
     (if 8 \<le> current_hour \<and> current_hour \<le> 18
      then (if parking_type = ''on-street-parking'' then ''Limited'' else ''Good'')
      else ''Excellent'')"

text \<open>
  \<open>_estimate_pricing\<close>. The rates are the decimal constants of the source; rounding them and
  their sevenfold to two decimals gives the same digits for the floats.
\<close>

definition base_rate :: "string \<Rightarrow> int \<Rightarrow> rat" where
  "base_rate parking_type distance =
     (if parking_type = ''parking-garage'' then (if distance < 500 then 4 else 32 / 10)
      else if parking_type = ''on-street-parking'' then (if distance < 500 then 3 else 24 / 10)
      else if parking_type = ''ev-charging'' then 28 / 10
      else (if distance < 500 then 26 / 10 else 2))"

definition estimate_pricing :: "string \<Rightarrow> int \<Rightarrow> dict" where
  "estimate_pricing parking_type distance =
     [(''hourly_rate'', JStr (currency @ fmt_f 2 (base_rate parking_type distance))),
      (''daily_rate'', JStr (currency @ fmt_f 2 (base_rate parking_type distance * 7))),
      (''estimated'', JBool True)]"

text \<open>\<open>_get_features\<close>.\<close>

definition get_features :: "string \<Rightarrow> int \<Rightarrow> string list" where
  "get_features parking_type distance =
     (if parking_type = ''parking-garage'' then [''Covered'', ''Secure'']
      else if parking_type = ''ev-charging'' then [''EV Charging'', ''Electric Vehicle Friendly'']
      else if parking_type = ''on-street-parking'' then [''Street Parking'']
      else [])
     @ (if distance < 200 then [''Very Close'']
        else if distance < 500 then [''Walking Distance'']
        else [])"

section \<open>Candidate normalizer\<close>

text \<open>
  One item of the provider's reply, with the fields \<open>_process_parking_spot\<close> reads. A key
  that the item lacks is \<open>None\<close>; a \<open>position\<close> that lacks a coordinate has \<open>None\<close> there.
\<close>

record raw_position =
  pos_lat :: "rat option"
  pos_lng :: "rat option"

record raw_spot =
  title :: "string option"
  position :: "raw_position option"
  address_label :: "string option"
  contacts :: "jv list option"

text \<open>The \<open>position\<close> dict as it is copied into the spot.\<close>

definition position_dict :: "raw_position option \<Rightarrow> dict" where
  "position_dict p =
     (case p of
        None \<Rightarrow> []
      | Some q \<Rightarrow>
          (case pos_lat q of None \<Rightarrow> [] | Some x \<Rightarrow> [(''lat'', JNum x)])
          @ (case pos_lng q of None \<Rightarrow> [] | Some y \<Rightarrow> [(''lng'', JNum y)]))"

text \<open>\<open>spot.get('position', {}).get('lat', 0)\<close> and the same for \<open>lng\<close>.\<close>

definition raw_lat :: "raw_spot \<Rightarrow> rat" where
  "raw_lat spot =
     (case py_get (position_dict (position spot)) ''lat'' (JInt 0) of JNum x \<Rightarrow> x | _ \<Rightarrow> 0)"

definition raw_lng :: "raw_spot \<Rightarrow> rat" where
  "raw_lng spot =
     (case py_get (position_dict (position spot)) ''lng'' (JInt 0) of JNum y \<Rightarrow> y | _ \<Rightarrow> 0)"

definition parking_type_of :: "string \<Rightarrow> string" where
  "parking_type_of title_lower =
     (if any_in [''garage'', ''multi'', ''story''] title_lower then ''parking-garage''
      else if any_in [''street'', ''road'', ''meter''] title_lower then ''on-street-parking''
      else if any_in [''electric'', ''ev'', ''charging''] title_lower then ''ev-charging''
      else ''parking-lot'')"

text \<open>
  \<open>_process_parking_spot\<close>. The great-circle distance \<open>_calculate_distance\<close> is floating-point
  trigonometry; it is the argument \<open>calc_distance\<close>, and everything below holds for any
  function in its place. \<open>None\<close> is the rejection.
\<close>

definition process_parking_spot ::
  "(rat \<Rightarrow> rat \<Rightarrow> rat \<Rightarrow> rat \<Rightarrow> int) \<Rightarrow> int \<Rightarrow> raw_spot \<Rightarrow> rat \<Rightarrow> rat \<Rightarrow> dict option" where
  "process_parking_spot calc_distance current_hour spot user_lat user_lng =
     (let spot_lat = raw_lat spot;
          spot_lng = raw_lng spot;
          distance = calc_distance user_lat user_lng spot_lat spot_lng
      in if distance > 3000 \<or> title spot = None \<or> title spot = Some [] then None
         else
           let ttl = (case title spot of Some t \<Rightarrow> t | None \<Rightarrow> ''Parking Location'');
               title_lower = lower ttl
           in if \<not> any_in [''park'', ''garage'', ''car'', ''space'', ''charging''] title_lower
              then None
              else
                let parking_type = parking_type_of title_lower;
                    walking_time = max 1 (distance div 80)
                in Some
                     [(''name'', JStr ttl),
                      (''address'',
                         JStr (case address_label spot of
                                 Some a \<Rightarrow> a | None \<Rightarrow> ''Address not available'')),
                      (''distance'', JInt distance),
                      (''walking_time'', JInt walking_time),
                      (''position'', JDict (position_dict (position spot))),
                      (''parking_type'', JStr parking_type),
                      (''pricing'', JDict (estimate_pricing parking_type distance)),
                      (''availability'', JStr (estimate_availability current_hour parking_type)),
                      (''features'', JList (map JStr (get_features parking_type distance))),
                      (''score'', JInt (calculate_score distance parking_type)),
                      (''contacts'',
                         JList (case contacts spot of Some cs \<Rightarrow> cs | None \<Rightarrow> []))])"

section \<open>Deduplicator\<close>

text \<open>
  \<open>_is_duplicate\<close> compares the keys \<open>f"{lat:.4f},{lng:.4f}"\<close>. Every spot it sees was
  built by \<open>_process_parking_spot\<close>, so a coordinate is a number or missing (then \<open>0\<close>).
\<close>

definition coord_value :: "jv \<Rightarrow> rat" where
  "coord_value v = (case v of JNum x \<Rightarrow> x | JInt n \<Rightarrow> of_int n | _ \<Rightarrow> 0)"

definition spot_key :: "dict \<Rightarrow> string" where
  "spot_key spot =
     (let pos = (case py_get spot ''position'' (JDict []) of JDict d \<Rightarrow> d | _ \<Rightarrow> [])
      in fmt_f 4 (coord_value (py_get pos ''lat'' (JInt 0))) @ '',''
           @ fmt_f 4 (coord_value (py_get pos ''lng'' (JInt 0))))"

fun is_duplicate :: "dict \<Rightarrow> dict list \<Rightarrow> bool" where
  "is_duplicate new_spot [] = False"
| "is_duplicate new_spot (spot # existing_spots) =
     (if spot_key spot = spot_key new_spot then True else is_duplicate new_spot existing_spots)"

section \<open>Collaborators\<close>

text \<open>
  What one turn receives from outside the program: the provider's replies, the geocoder,
  the language model, the clock, the random draws, and the regular-expression matcher of
  \<open>extract_location_from_query\<close>. A provider pass that raises, or whose reply has no
  \<open>items\<close>, is \<open>None\<close>. The source reads the clock for every spot; here one hour stands
  for the whole turn. \<open>geocode_location\<close> fills all five keys of its result, so the defaults
  of \<open>location_info.get('city', ...)\<close> are never used. The theorems hold for every value of
  this record.
\<close>

datatype llm_reply = Reply string | NoChoices | Failure

record location_info =
  lat :: rat
  lng :: rat
  address :: string
  city :: string
  district :: string

record world =
  calculate_distance :: "rat \<Rightarrow> rat \<Rightarrow> rat \<Rightarrow> rat \<Rightarrow> int"
  current_hour :: int
  discover_text :: "rat \<Rightarrow> rat \<Rightarrow> string \<Rightarrow> raw_spot list option"
  discover_category :: "rat \<Rightarrow> rat \<Rightarrow> string \<Rightarrow> raw_spot list option"
  randint :: "nat \<Rightarrow> int \<Rightarrow> int \<Rightarrow> int"
  geocode_location :: "string \<Rightarrow> location_info option"
  extract_location_from_query :: "string \<Rightarrow> string option"
  llm_search :: llm_reply
  llm_chat :: llm_reply

section \<open>Aggregator\<close>

text \<open>The inner loop of \<open>search_parking\<close> over the items of one reply.\<close>

fun add_items :: "world \<Rightarrow> rat \<Rightarrow> rat \<Rightarrow> dict list \<Rightarrow> raw_spot list \<Rightarrow> dict list" where
  "add_items w la lo all_spots [] = all_spots"
| "add_items w la lo all_spots (spot # items) =
     add_items w la lo
       (case process_parking_spot (calculate_distance w) (current_hour w) spot la lo of
          None \<Rightarrow> all_spots
        | Some spot_data \<Rightarrow>
            if is_duplicate spot_data all_spots then all_spots else all_spots @ [spot_data])
       items"

definition search_queries :: "string list" where
  "search_queries = [''parking'', ''car park'', ''parking garage'', ''street parking'', ''parking lot'']"

definition category_ids :: "string list" where
  "category_ids = [''700-7600-0322'', ''700-7600-0323'', ''700-7600-0000'']"

fun text_passes :: "world \<Rightarrow> rat \<Rightarrow> rat \<Rightarrow> dict list \<Rightarrow> string list \<Rightarrow> dict list" where
  "text_passes w la lo all_spots [] = all_spots"
| "text_passes w la lo all_spots (query # queries) =
     text_passes w la lo
       (case discover_text w la lo query of
          None \<Rightarrow> all_spots
        | Some items \<Rightarrow> add_items w la lo all_spots items)
       queries"

fun category_passes :: "world \<Rightarrow> rat \<Rightarrow> rat \<Rightarrow> dict list \<Rightarrow> string list \<Rightarrow> dict list" where
  "category_passes w la lo all_spots [] = all_spots"
| "category_passes w la lo all_spots (cat_id # cat_ids) =
     category_passes w la lo
       (case discover_category w la lo cat_id of
          None \<Rightarrow> all_spots
        | Some items \<Rightarrow> add_items w la lo all_spots items)
       cat_ids"

text \<open>The list \<open>all_spots\<close> of \<open>search_parking\<close> when the passes are over, before the sort.\<close>

definition gather :: "world \<Rightarrow> rat \<Rightarrow> rat \<Rightarrow> dict list" where
  "gather w la lo =
     (let all_spots = text_passes w la lo [] search_queries
      in if length all_spots < 5 then category_passes w la lo all_spots category_ids
         else all_spots)"

definition score_of :: "dict \<Rightarrow> int" where
  "score_of x = (case py_get x ''score'' (JInt 0) of JInt n \<Rightarrow> n | _ \<Rightarrow> 0)"

text \<open>
  \<open>all_spots.sort(key=..., reverse=True)\<close> is a stable sort by falling score, as is
  \<open>sort_key\<close> on the negated score; \<open>[:10]\<close> is \<open>take 10\<close>.
\<close>

definition search_parking :: "world \<Rightarrow> rat \<Rightarrow> rat \<Rightarrow> dict list" where
  "search_parking w la lo = take 10 (sort_key (\<lambda>x. - score_of x) (gather w la lo))"

text \<open>\<open>generate_mock_data\<close>; \<open>randint w k a b\<close> is the \<open>k\<close>-th call of \<open>random.randint(a, b)\<close>.\<close>

definition generate_mock_data :: "world \<Rightarrow> location_info \<Rightarrow> dict list" where
  "generate_mock_data w info =
     (let cty = city info
      in [[(''name'', JStr (cty @ '' Multi-Story Car Park'')),
           (''address'', JStr (''High Street, '' @ cty)),
           (''distance'', JInt (randint w 0 80 300)),
           (''walking_time'', JInt (randint w 1 2 4)),
           (''parking_type'', JStr ''parking-garage''),
           (''pricing'', JDict [(''hourly_rate'', JStr (currency @ ''3.50'')),
                                (''daily_rate'', JStr (currency @ ''18.00''))]),
           (''availability'', JStr ''Good''),
           (''score'', JInt 85),
           (''features'', JList [JStr ''Covered'', JStr ''Secure'', JStr ''CCTV''])],
          [(''name'', JStr (cty @ '' Pay & Display Zone'')),
           (''address'', JStr (''Market Street, '' @ cty)),
           (''distance'', JInt (randint w 2 50 250)),
           (''walking_time'', JInt (randint w 3 1 3)),
           (''parking_type'', JStr ''on-street-parking''),
           (''pricing'', JDict [(''hourly_rate'', JStr (currency @ ''2.80'')),
                                (''daily_rate'', JStr ''Max 4 hours'')]),
           (''availability'', JStr ''Limited''),
           (''score'', JInt 70),
           (''features'', JList [JStr ''Pay & Display'', JStr ''Time Limited''])],
          [(''name'', JStr (cty @ '' Shopping Centre Car Park'')),
           (''address'', JStr (''Retail Park, '' @ cty)),
           (''distance'', JInt (randint w 4 150 400)),
           (''walking_time'', JInt (randint w 5 3 6)),
           (''parking_type'', JStr ''parking-lot''),
           (''pricing'', JDict [(''hourly_rate'', JStr (currency @ ''2.20'')),
                                (''daily_rate'', JStr (currency @ ''12.00''))]),
           (''availability'', JStr ''Excellent''),
           (''score'', JInt 75),
           (''features'', JList [JStr ''Large Capacity'', JStr ''Free Sundays''])],
          [(''name'', JStr (cty @ '' Council Car Park'')),
           (''address'', JStr (''Town Centre, '' @ cty)),
           (''distance'', JInt (randint w 6 200 450)),
           (''walking_time'', JInt (randint w 7 3 6)),
           (''parking_type'', JStr ''parking-lot''),
           (''pricing'', JDict [(''hourly_rate'', JStr (currency @ ''1.80'')),
                                (''daily_rate'', JStr (currency @ ''10.00''))]),
           (''availability'', JStr ''Good''),
           (''score'', JInt 72),
           (''features'', JList [JStr ''Budget Option'', JStr ''Council Run''])]])"

text \<open>
  The step of \<open>process_query\<close> between the search and the session: the mock data is appended
  when the search returned fewer than five spots, and the list is cut to ten.
\<close>

definition backfill :: "world \<Rightarrow> location_info \<Rightarrow> dict list \<Rightarrow> dict list" where
  "backfill w info parking_data =
     (if length parking_data < 5 then take 10 (parking_data @ generate_mock_data w info)
      else parking_data)"

definition final_spots :: "world \<Rightarrow> location_info \<Rightarrow> dict list" where
  "final_spots w info = backfill w info (search_parking w (lat info) (lng info))"

section \<open>Session store\<close>

record search_result =
  spots :: "dict list"
  location :: string

record turn =
  user :: string
  assistant :: string

record session =
  history :: "turn list"
  last_parking_search :: "search_result option"

type_synonym conversations = "string \<rightharpoonup> session"

text \<open>
  \<open>self.conversations.get(session_id, {}).get('history', [])\<close> and
  \<open>self.conversations.get(session_id, {}).get('last_parking_search')\<close>.
\<close>

definition history_of :: "conversations \<Rightarrow> string \<Rightarrow> turn list" where
  "history_of convs session_id = (case convs session_id of None \<Rightarrow> [] | Some sd \<Rightarrow> history sd)"

definition last_search_of :: "conversations \<Rightarrow> string \<Rightarrow> search_result option" where
  "last_search_of convs session_id =
     (case convs session_id of None \<Rightarrow> None | Some sd \<Rightarrow> last_parking_search sd)"

text \<open>The first lines of \<open>process_query\<close>: a session that does not exist yet is created.\<close>

definition ensure_session :: "conversations \<Rightarrow> string \<Rightarrow> conversations" where
  "ensure_session convs session_id =
     (if convs session_id = None
      then convs(session_id \<mapsto> \<lparr>history = [], last_parking_search = None\<rparr>)
      else convs)"

text \<open>\<open>self.conversations[session_id]['history'].append({'user': u, 'assistant': a})\<close>.\<close>

definition append_history :: "conversations \<Rightarrow> string \<Rightarrow> string \<Rightarrow> string \<Rightarrow> conversations" where
  "append_history convs session_id u a =
     (case convs session_id of
        None \<Rightarrow> convs
      | Some sd \<Rightarrow>
          convs(session_id \<mapsto> sd\<lparr>history := history sd @ [\<lparr>user = u, assistant = a\<rparr>]\<rparr>))"

definition store_search :: "conversations \<Rightarrow> string \<Rightarrow> search_result \<Rightarrow> conversations" where
  "store_search convs session_id r =
     (case convs session_id of
        None \<Rightarrow> convs
      | Some sd \<Rightarrow> convs(session_id \<mapsto> sd\<lparr>last_parking_search := Some r\<rparr>))"

section \<open>Follow-up resolver\<close>

definition bind_err :: "py_error + 'a \<Rightarrow> ('a \<Rightarrow> py_error + 'b) \<Rightarrow> py_error + 'b" where
  "bind_err r f = (case r of Inl e \<Rightarrow> Inl e | Inr v \<Rightarrow> f v)"

text \<open>\<open>min(xs, key=f)\<close>: the first element with the least key, \<open>ValueError\<close> on an empty list.\<close>

fun min_from :: "('a \<Rightarrow> py_error + 'k::linorder) \<Rightarrow> 'a \<Rightarrow> 'k \<Rightarrow> 'a list \<Rightarrow> py_error + 'a" where
  "min_from f best best_key [] = Inr best"
| "min_from f best best_key (y # ys) =
     (case f y of
        Inl e \<Rightarrow> Inl e
      | Inr k \<Rightarrow> if k < best_key then min_from f y k ys else min_from f best best_key ys)"

definition min_by :: "('a \<Rightarrow> py_error + 'k::linorder) \<Rightarrow> 'a list \<Rightarrow> py_error + 'a" where
  "min_by f xs =
     (case xs of
        [] \<Rightarrow> Inl ValueError
      | x # rest \<Rightarrow> (case f x of Inl e \<Rightarrow> Inl e | Inr k \<Rightarrow> min_from f x k rest))"

text \<open>
  The two sort keys of \<open>handle_follow_up_question\<close>. A stored value of another kind than the
  program writes there (a price that is not a string, a walking time that is not an integer)
  is reported as the error Python raises for most such values.
\<close>

definition hourly_key :: "dict \<Rightarrow> py_error + rat" where
  "hourly_key x =
     (case py_get x ''pricing'' (JDict []) of
        JDict p \<Rightarrow>
          (case py_get p ''hourly_rate'' (JStr (currency @ ''99'')) of
             JStr s \<Rightarrow> py_float (remove_all currency s)
           | _ \<Rightarrow> Inl AttributeError)
      | _ \<Rightarrow> Inl AttributeError)"

definition walking_key :: "dict \<Rightarrow> py_error + int" where
  "walking_key x =
     (case py_get x ''walking_time'' (JInt 99) of JInt n \<Rightarrow> Inr n | _ \<Rightarrow> Inl TypeError)"

text \<open>
  A value inside an f-string. Strings, integers, booleans and \<open>None\<close> are printed as Python
  prints them; the program never prints a float, a list or a dict of a spot this way.
\<close>

definition fmt_value :: "jv \<Rightarrow> py_error + string" where
  "fmt_value v =
     (case v of
        JStr s \<Rightarrow> Inr s
      | JInt n \<Rightarrow> Inr (show_int n)
      | JBool b \<Rightarrow> Inr (if b then ''True'' else ''False'')
      | JNone \<Rightarrow> Inr ''None''
      | _ \<Rightarrow> Inl TypeError)"

text \<open>\<open>d[k]\<close> printed, and \<open>d[k1][k2]\<close> printed.\<close>

definition fmt_item :: "dict \<Rightarrow> string \<Rightarrow> py_error + string" where
  "fmt_item d k = bind_err (py_item d k) fmt_value"

definition fmt_item2 :: "dict \<Rightarrow> string \<Rightarrow> string \<Rightarrow> py_error + string" where
  "fmt_item2 d k1 k2 =
     bind_err (py_item d k1)
       (\<lambda>v. case v of JDict inner \<Rightarrow> fmt_item inner k2 | _ \<Rightarrow> Inl TypeError)"

definition nl :: string where
  "nl = [CHR 0x0A]"

text \<open>The pictograms of the source's templates, byte for byte.\<close>

definition icon_trophy :: string where
  "icon_trophy = [CHR 0xEF, CHR 0xA3, CHR 0xBF, CHR 0xC3, CHR 0xBC, CHR 0xC3, CHR 0xA8,
                  CHR 0xC3, CHR 0x9C]"

definition icon_money :: string where
  "icon_money = [CHR 0xEF, CHR 0xA3, CHR 0xBF, CHR 0xC3, CHR 0xBC, CHR 0xC3, CHR 0xAD,
                 CHR 0xE2, CHR 0x88, CHR 0x9E]"

definition icon_walk :: string where
  "icon_walk = [CHR 0xEF, CHR 0xA3, CHR 0xBF, CHR 0xC3, CHR 0xBC, CHR 0xC3, CHR 0xB6,
                CHR 0xE2, CHR 0x88, CHR 0x82]"

definition icon_parking :: string where
  "icon_parking = [CHR 0xEF, CHR 0xA3, CHR 0xBF, CHR 0xC3, CHR 0xBC, CHR 0xC3, CHR 0x96,
                   CHR 0xC3, CHR 0xB8, CHR 0xC3, CHR 0x94, CHR 0xE2, CHR 0x88, CHR 0x8F,
                   CHR 0xC3, CHR 0xA8]"

definition icon_pin :: string where
  "icon_pin = [CHR 0xEF, CHR 0xA3, CHR 0xBF, CHR 0xC3, CHR 0xBC, CHR 0xC3, CHR 0xAC,
               CHR 0xC3, CHR 0xA7]"

definition icon_bullet :: string where
  "icon_bullet = [CHR 0xE2, CHR 0x80, CHR 0x9A, CHR 0xC3, CHR 0x84, CHR 0xC2, CHR 0xA2]"

definition icon_sparkle :: string where
  "icon_sparkle = [CHR 0xE2, CHR 0x80, CHR 0x9A, CHR 0xC3, CHR 0xBA, CHR 0xC2, CHR 0xAE]"

text \<open>
  \<open>handle_follow_up_question\<close>: \<open>Inr None\<close> is the return value \<open>None\<close>, \<open>Inl e\<close> an exception
  that leaves the function.
\<close>

definition handle_follow_up_question ::
  "conversations \<Rightarrow> string \<Rightarrow> string \<Rightarrow> py_error + string option" where
  "handle_follow_up_question convs user_message session_id =
     (case last_search_of convs session_id of
             None \<Rightarrow> Inr None
           | Some last_parking_data \<Rightarrow>
               let spts = spots last_parking_data;
                   loc = location last_parking_data;
                   msg_lower = lower user_message
               in if any_in [''best'', ''recommend'', ''suggest'', ''which''] msg_lower
                  then
                    (case spts of
                       [] \<Rightarrow> Inl IndexError
                     | top_spot # _ \<Rightarrow>
                         bind_err (min_by hourly_key spts) (\<lambda>cheapest.
                         bind_err (min_by walking_key spts) (\<lambda>closest.
                         bind_err (fmt_item top_spot ''name'') (\<lambda>top_name.
                         bind_err (fmt_item cheapest ''name'') (\<lambda>cheapest_name.
                         bind_err (fmt_item2 cheapest ''pricing'' ''hourly_rate'') (\<lambda>cheapest_rate.
                         bind_err (fmt_item closest ''name'') (\<lambda>closest_name.
                         bind_err (fmt_item closest ''walking_time'') (\<lambda>closest_walk.
                           Inr (Some
                             (''Based on your '' @ loc @ '' search, here are my top picks:'' @ nl @ nl
                              @ icon_trophy @ '' **Overall Best:** '' @ top_name @ nl
                              @ ''   Best balance of location, price, and features'' @ nl @ nl
                              @ icon_money @ '' **Cheapest:** '' @ cheapest_name @ nl
                              @ ''   Just '' @ cheapest_rate @ ''/hour'' @ nl @ nl
                              @ icon_walk @ '' **Closest:** '' @ closest_name @ nl
                              @ ''   Only '' @ closest_walk @ '' min walk'' @ nl @ nl
                              @ ''What matters most to you - price, convenience, or security?''))))))))))
                  else Inr None)"

section \<open>Response composer\<close>

text \<open>\<open>', '.join(xs)\<close> for a list of strings.\<close>

fun join_strs :: "jv list \<Rightarrow> py_error + string" where
  "join_strs [] = Inr []"
| "join_strs [JStr a] = Inr a"
| "join_strs (JStr a # rest) =
     (case join_strs rest of Inl e \<Rightarrow> Inl e | Inr b \<Rightarrow> Inr (a @ '', '' @ b))"
| "join_strs (_ # rest) = Inl TypeError"

text \<open>
  \<open>spot.get('features')\<close> and, when it is a non-empty list, its first \<open>n\<close> entries joined.
\<close>

definition features_text :: "nat \<Rightarrow> dict \<Rightarrow> py_error + string option" where
  "features_text n spot =
     (case map_of spot ''features'' of
        None \<Rightarrow> Inr None
      | Some JNone \<Rightarrow> Inr None
      | Some (JList fs) \<Rightarrow>
          if fs = [] then Inr None
          else (case join_strs (take n fs) of Inl e \<Rightarrow> Inl e | Inr t \<Rightarrow> Inr (Some t))
      | Some _ \<Rightarrow> Inl TypeError)"

text \<open>
  The prompt that \<open>generate_ai_response\<close> builds goes to the language model only; what
  matters here is whether building it raises. These are the reads it makes of one spot.
\<close>

definition context_entry :: "dict \<Rightarrow> py_error + unit" where
  "context_entry spot =
     bind_err (fmt_item spot ''walking_time'') (\<lambda>_.
     bind_err (fmt_item spot ''name'') (\<lambda>_.
     bind_err (fmt_item spot ''address'') (\<lambda>_.
     bind_err (fmt_item2 spot ''pricing'' ''hourly_rate'') (\<lambda>_.
     bind_err (features_text 3 spot) (\<lambda>_.
     bind_err (fmt_item spot ''availability'') (\<lambda>_. Inr ()))))))"

fun context_entries :: "dict list \<Rightarrow> py_error + unit" where
  "context_entries [] = Inr ()"
| "context_entries (spot # rest) =
     (case context_entry spot of Inl e \<Rightarrow> Inl e | Inr _ \<Rightarrow> context_entries rest)"

definition fallback_entry :: "nat \<Rightarrow> dict \<Rightarrow> py_error + string" where
  "fallback_entry i spot =
     bind_err (fmt_item spot ''name'') (\<lambda>nm.
     bind_err (fmt_item spot ''address'') (\<lambda>addr.
     bind_err (fmt_item spot ''walking_time'') (\<lambda>walk.
     bind_err (fmt_item2 spot ''pricing'' ''hourly_rate'') (\<lambda>rate.
     bind_err (features_text 2 spot) (\<lambda>feats.
       Inr (icon_parking @ '' **'' @ show_nat i @ ''. '' @ nm @ ''**'' @ nl
            @ icon_pin @ '' '' @ addr @ nl
            @ icon_walk @ '' '' @ walk @ '' min walk '' @ icon_bullet @ '' ''
            @ icon_money @ '' '' @ rate @ ''/hour'' @ nl
            @ (case feats of None \<Rightarrow> [] | Some t \<Rightarrow> icon_sparkle @ '' '' @ t @ nl)
            @ nl))))))"

fun fallback_entries :: "nat \<Rightarrow> dict list \<Rightarrow> py_error + string" where
  "fallback_entries i [] = Inr []"
| "fallback_entries i (spot # rest) =
     (case fallback_entry i spot of
        Inl e \<Rightarrow> Inl e
      | Inr a \<Rightarrow> (case fallback_entries (Suc i) rest of Inl e \<Rightarrow> Inl e | Inr b \<Rightarrow> Inr (a @ b)))"

text \<open>
  \<open>generate_ai_response\<close>. \<open>Reply c\<close> is a reply with content \<open>c\<close>, \<open>NoChoices\<close> a reply
  without \<open>choices\<close>, \<open>Failure\<close> a request that raises. Every exception inside the function
  is caught by its \<open>except\<close>, whose text is \<open>except_text\<close>.
\<close>

definition except_text :: "dict list \<Rightarrow> string" where
  "except_text parking_data =
     (if parking_data \<noteq> []
      then ''I found '' @ show_nat (length parking_data)
           @ '' parking options for you! The search worked but I'm having response issues. Try asking 'which is best?' for recommendations.''
      else ''I'm having some technical difficulties right now. Could you try asking again?'')"

definition generate_ai_response :: "llm_reply \<Rightarrow> dict list \<Rightarrow> string" where
  "generate_ai_response reply parking_data =
     (case context_entries parking_data of
        Inl e \<Rightarrow> except_text parking_data
      | Inr _ \<Rightarrow>
          (case reply of
             Failure \<Rightarrow> except_text parking_data
           | Reply content \<Rightarrow> content
           | NoChoices \<Rightarrow>
               if parking_data \<noteq> []
               then (case fallback_entries 1 (take 5 parking_data) of
                       Inl e \<Rightarrow> except_text parking_data
                     | Inr body \<Rightarrow>
                         ''I found '' @ show_nat (length parking_data)
                         @ '' great parking options for you!'' @ nl @ nl @ body)
               else ''I'm having trouble with my response system, but I'm here to help with parking!''))"

section \<open>Turn processing\<close>

definition not_found_text :: "string \<Rightarrow> string" where
  "not_found_text loc =
     ''Hmm, I'm having trouble finding '' @ [CHR 0x27] @ loc @ [CHR 0x27]
     @ ''. Could you be a bit more specific? Maybe include a street address or a well-known landmark?''"

definition greeting_text :: string where
  "greeting_text = ''Hey! I'm Parksy, your parking assistant. What can I help you find today?''"

text \<open>
  \<open>process_query\<close>. The result is the returned text, or the exception that leaves the
  function, together with the sessions as the call leaves them.
\<close>

definition process_query ::
  "world \<Rightarrow> conversations \<Rightarrow> string \<Rightarrow> string \<Rightarrow> (py_error + string) \<times> conversations" where
  "process_query w convs0 user_input session_id =
     (let convs = ensure_session convs0 session_id
      in case handle_follow_up_question convs user_input session_id of
           Inl e \<Rightarrow> (Inl e, convs)
         | Inr follow_up \<Rightarrow>
             (case (if follow_up = Some [] then None else follow_up) of
                Some text \<Rightarrow> (Inr text, append_history convs session_id user_input text)
              | None \<Rightarrow>
                  (case (if extract_location_from_query w user_input = Some [] then None
                         else extract_location_from_query w user_input) of
                     Some loc \<Rightarrow>
                       (case geocode_location w loc of
                          None \<Rightarrow>
                            (Inr (not_found_text loc),
                             append_history convs session_id user_input (not_found_text loc))
                        | Some info \<Rightarrow>
                            let parking_data = search_parking w (lat info) (lng info);
                                parking_data = backfill w info parking_data;
                                convs = store_search convs session_id
                                          \<lparr>spots = parking_data, location = city info\<rparr>;
                                ai_response = generate_ai_response (llm_search w) parking_data
                            in (Inr ai_response,
                                append_history convs session_id user_input ai_response))
                   | None \<Rightarrow>
                       (case llm_chat w of
                          Reply ai_response \<Rightarrow>
                            (Inr ai_response,
                             append_history convs session_id user_input ai_response)
                        | _ \<Rightarrow> (Inr greeting_text, convs)))))"

text \<open>
  A conversation: the turns are processed one after the other, each with what the outside
  world answers during that turn. The run stops at a turn that raises.
\<close>

record event =
  ev_world :: world
  ev_input :: string
  ev_session :: string

fun run :: "conversations \<Rightarrow> event list \<Rightarrow> py_error + conversations" where
  "run convs [] = Inr convs"
| "run convs (e # es) =
     (case process_query (ev_world e) convs (ev_input e) (ev_session e) of
        (Inl err, _) \<Rightarrow> Inl err
      | (Inr _, convs') \<Rightarrow> run convs' es)"

section \<open>Notions used in the statements\<close>

text \<open>
  The raw records that one run of \<open>search_parking\<close> looks at, in the order it looks at them:
  the items of the text passes, then those of the category passes when these run.
\<close>

definition reply_items :: "raw_spot list option \<Rightarrow> raw_spot list" where
  "reply_items r = (case r of None \<Rightarrow> [] | Some items \<Rightarrow> items)"

definition text_items :: "world \<Rightarrow> rat \<Rightarrow> rat \<Rightarrow> raw_spot list" where
  "text_items w la lo = concat (map (\<lambda>q. reply_items (discover_text w la lo q)) search_queries)"

definition category_items :: "world \<Rightarrow> rat \<Rightarrow> rat \<Rightarrow> raw_spot list" where
  "category_items w la lo =
     concat (map (\<lambda>c. reply_items (discover_category w la lo c)) category_ids)"

definition seen_items :: "world \<Rightarrow> rat \<Rightarrow> rat \<Rightarrow> raw_spot list" where
  "seen_items w la lo =
     text_items w la lo
     @ (if length (text_passes w la lo [] search_queries) < 5 then category_items w la lo else [])"





text \<open>
  What the follow-up resolver reads of a spot: a name and a walking time that can be printed,
  and an hourly rate that is a number once the currency prefix is removed.
\<close>

definition well_formed_spot :: "dict \<Rightarrow> bool" where
  "well_formed_spot spot =
     ((case map_of spot ''name'' of Some (JStr _) \<Rightarrow> True | _ \<Rightarrow> False)
      \<and> (case map_of spot ''walking_time'' of Some (JInt _) \<Rightarrow> True | _ \<Rightarrow> False)
      \<and> (case map_of spot ''pricing'' of
            Some (JDict p) \<Rightarrow>
              (case map_of p ''hourly_rate'' of
                 Some (JStr r) \<Rightarrow>
                   (case py_float (remove_all currency r) of Inr _ \<Rightarrow> True | Inl _ \<Rightarrow> False)
               | _ \<Rightarrow> False)
          | _ \<Rightarrow> False))"

text \<open>Every stored search result is the list that some search turn produced.\<close>

definition stored_by_search :: "conversations \<Rightarrow> bool" where
  "stored_by_search convs =
     (\<forall>sid r. last_search_of convs sid = Some r \<longrightarrow> (\<exists>w info. spots r = final_spots w info))"

definition returns :: "py_error + 'a \<Rightarrow> bool" where
  "returns r = (case r of Inr _ \<Rightarrow> True | Inl _ \<Rightarrow> False)"

section \<open>Example scenarios\<close>

definition demo_info :: location_info where
  "demo_info = \<lparr>lat = 515080 / 10000, lng = - 1281 / 10000,
                 address = ''Trafalgar Square, London'', city = ''London'',
                 district = ''Westminster''\<rparr>"

text \<open>A stand-in for the distance in metres: the coordinate differences, summed.\<close>

definition demo_distance :: "rat \<Rightarrow> rat \<Rightarrow> rat \<Rightarrow> rat \<Rightarrow> int" where
  "demo_distance la1 lo1 la2 lo2 = \<lfloor>(\<bar>la2 - la1\<bar> + \<bar>lo2 - lo1\<bar>) * 100000\<rfloor>"

definition raw_at :: "string \<Rightarrow> rat \<Rightarrow> rat \<Rightarrow> raw_spot" where
  "raw_at t la lo =
     \<lparr>title = Some t, position = Some \<lparr>pos_lat = Some la, pos_lng = Some lo\<rparr>,
      address_label = None, contacts = None\<rparr>"

definition spot_a :: raw_spot where
  "spot_a = raw_at ''Main Street Car Park'' (5150741 / 100000) (- 12779 / 100000)"

definition spot_b :: raw_spot where
  "spot_b = raw_at ''Station Garage'' (5150743 / 100000) (- 12781 / 100000)"

definition spot_c :: raw_spot where
  "spot_c = raw_at ''Riverside Parking'' (515190 / 10000) (- 1300 / 10000)"

definition spot_d :: raw_spot where
  "spot_d = raw_at ''Central Library'' (515081 / 10000) (- 1282 / 10000)"

text \<open>No provider results, a geocoder that finds the place, a language model that is down.\<close>

definition quiet_world :: world where
  "quiet_world =
     \<lparr>calculate_distance = demo_distance, current_hour = 12,
      discover_text = (\<lambda>la lo q. None), discover_category = (\<lambda>la lo c. None),
      randint = (\<lambda>k a b. a),
      geocode_location = (\<lambda>loc. Some demo_info),
      extract_location_from_query = (\<lambda>msg. Some ''Trafalgar Square''),
      llm_search = Failure, llm_chat = Failure\<rparr>"

text \<open>The first text pass returns four records: two at the same key, one apart, one library.\<close>

definition sparse_world :: world where
  "sparse_world =
     quiet_world\<lparr>discover_text :=
       (\<lambda>la lo q. if q = ''parking'' then Some [spot_a, spot_b, spot_c, spot_d] else None)\<rparr>"


text \<open>The geocoder does not know the place.\<close>

definition lost_world :: world where
  "lost_world =
     quiet_world\<lparr>geocode_location := (\<lambda>loc. None),
                 extract_location_from_query := (\<lambda>msg. Some ''Zzyzxville'')\<rparr>"

text \<open>A message without a place, while the language model is down.\<close>

definition chat_world :: world where
  "chat_world = quiet_world\<lparr>extract_location_from_query := (\<lambda>msg. None)\<rparr>"

text \<open>A first message that asks for parking near a place.\<close>

definition search_turn :: "world \<Rightarrow> event" where
  "search_turn w =
     \<lparr>ev_world = w, ev_input = ''parking near Trafalgar Square'', ev_session = ''web_session''\<rparr>"

section \<open>Scorer: the score and the availability estimate\<close>

text \<open>
  C9. For every distance and every parking type the score is 50, plus 25 below 200 m, else
  plus 20 below 500 m, else plus 15 below 1000 m, plus 10 for a parking garage or 15 for
  EV charging, clamped to the range from 0 to 100; and it always lies in that range.
\<close>

theorem calculate_score_formula:
  "calculate_score d t =
     max 0 (min 100 (50 + (if d < 200 then 25 else if d < 500 then 20
                           else if d < 1000 then 15 else 0)
                        + (if t = ''parking-garage'' then 10
                           else if t = ''ev-charging'' then 15 else 0)))
   \<and> 0 \<le> calculate_score d t \<and> calculate_score d t \<le> 100"
  by (simp add: calculate_score_def Let_def)

text \<open>
  C6, as stated: outside the half-open window from 8 to 18 the estimate is "Excellent" for
  every type. At 18 o'clock it is not.
\<close>

theorem availability_at_18: "estimate_availability 18 ''parking-lot'' \<noteq> ''Excellent''"
  by (simp add: estimate_availability_def)

text \<open>
  C6, amended: the window is closed at both ends. From 8 to 18 inclusive the estimate is
  "Limited" for on-street parking and "Good" for every other type; before 8 and after 18
  it is "Excellent" for every type.
\<close>

theorem availability_window:
  "(8 \<le> h \<and> h \<le> 18 \<longrightarrow>
      estimate_availability h t = (if t = ''on-street-parking'' then ''Limited'' else ''Good''))
   \<and> (h < 8 \<or> 18 < h \<longrightarrow> estimate_availability h t = ''Excellent'')"
  by (auto simp add: estimate_availability_def)

theorem availability_window_witness:
  "(8::int) \<le> 12 \<and> (12::int) \<le> 18 \<and> (18::int) < 20
   \<and> estimate_availability 12 ''on-street-parking'' = ''Limited''
   \<and> estimate_availability 18 ''parking-garage'' = ''Good''
   \<and> estimate_availability 20 ''on-street-parking'' = ''Excellent''"
  using availability_window [of 12 "''on-street-parking''"]
        availability_window [of 18 "''parking-garage''"]
        availability_window [of 20 "''on-street-parking''"]
  by simp

section \<open>Candidate normalizer: what is rejected\<close>









section \<open>Deduplicator: first seen wins\<close>

lemma add_items_append:
  "add_items w la lo acc (xs @ ys) = add_items w la lo (add_items w la lo acc xs) ys"
  by (induction xs arbitrary: acc) simp_all

lemma text_passes_add_items:
  "text_passes w la lo acc qs =
     add_items w la lo acc (concat (map (\<lambda>q. reply_items (discover_text w la lo q)) qs))"
  by (induction qs arbitrary: acc)
     (simp_all add: add_items_append reply_items_def split: option.splits)

lemma category_passes_add_items:
  "category_passes w la lo acc cs =
     add_items w la lo acc (concat (map (\<lambda>c. reply_items (discover_category w la lo c)) cs))"
  by (induction cs arbitrary: acc)
     (simp_all add: add_items_append reply_items_def split: option.splits)

lemma gather_add_items: "gather w la lo = add_items w la lo [] (seen_items w la lo)"
  by (simp add: gather_def seen_items_def text_items_def category_items_def Let_def
        text_passes_add_items category_passes_add_items add_items_append)









subsection \<open>Formatted coordinates and distances of the example records\<close>

lemma floor_numeral_div: "\<lfloor>numeral a / numeral b :: rat\<rfloor> = numeral a div numeral b"
  using floor_divide_of_int_eq [of "numeral a" "numeral b", where ?'a = rat] by simp

















section \<open>Aggregator: order, length and backfill\<close>

lemma add_items_members:
  "s \<in> set (add_items w la lo acc items) \<Longrightarrow>
   s \<in> set acc \<or>
   (\<exists>raw \<in> set items.
      process_parking_spot (calculate_distance w) (current_hour w) raw la lo = Some s)"
  by (induction items arbitrary: acc) (fastforce split: option.splits if_splits)+

lemma gather_processed:
  "s \<in> set (gather w la lo) \<Longrightarrow>
   \<exists>raw. process_parking_spot (calculate_distance w) (current_hour w) raw la lo = Some s"
  using add_items_members [of s w la lo "[]" "seen_items w la lo"]
  by (auto simp: gather_add_items)


lemma length_search_parking: "length (search_parking w la lo) \<le> 10"
  by (simp add: search_parking_def)


lemma set_search_parking: "set (search_parking w la lo) \<subseteq> set (gather w la lo)"
  using set_take_subset [of 10 "sort_key (\<lambda>x. - score_of x) (gather w la lo)"]
  by (simp add: search_parking_def)

lemma length_generate_mock_data: "length (generate_mock_data w info) = 4"
  by (simp add: generate_mock_data_def Let_def)

lemma backfill_cases:
  "backfill w info pd = (if length pd < 5 then pd @ generate_mock_data w info else pd)"
  by (simp add: backfill_def length_generate_mock_data)

lemma length_backfill_le: "length pd \<le> 10 \<Longrightarrow> length (backfill w info pd) \<le> 10"
  by (simp add: backfill_cases length_generate_mock_data)

lemma length_backfill_ge: "4 \<le> length (backfill w info pd)"
  by (simp add: backfill_cases length_generate_mock_data)







section \<open>The scenario with two records at one place\<close>










section \<open>Sessions: what a turn changes\<close>

lemma history_of_ensure [simp]:
  "history_of (ensure_session convs sid) sid' = history_of convs sid'"
  by (simp add: history_of_def ensure_session_def)

lemma last_search_of_ensure [simp]:
  "last_search_of (ensure_session convs sid) sid' = last_search_of convs sid'"
  by (simp add: last_search_of_def ensure_session_def)

lemma ensure_session_defined: "ensure_session convs sid sid \<noteq> None"
  by (simp add: ensure_session_def)

lemma history_of_append:
  "convs sid \<noteq> None \<Longrightarrow>
   history_of (append_history convs sid u a) sid' =
     (if sid' = sid then history_of convs sid @ [\<lparr>user = u, assistant = a\<rparr>]
      else history_of convs sid')"
  by (auto simp: history_of_def append_history_def)

lemma last_search_of_append [simp]:
  "last_search_of (append_history convs sid u a) sid' = last_search_of convs sid'"
  by (auto simp: last_search_of_def append_history_def split: option.splits)

lemma append_history_defined: "convs sid \<noteq> None \<Longrightarrow> append_history convs sid u a sid \<noteq> None"
  by (auto simp: append_history_def)

lemma history_of_store [simp]:
  "history_of (store_search convs sid r) sid' = history_of convs sid'"
  by (auto simp: history_of_def store_search_def split: option.splits)

lemma last_search_of_store:
  "convs sid \<noteq> None \<Longrightarrow>
   last_search_of (store_search convs sid r) sid' =
     (if sid' = sid then Some r else last_search_of convs sid')"
  by (auto simp: last_search_of_def store_search_def)

lemma store_search_defined: "convs sid \<noteq> None \<Longrightarrow> store_search convs sid r sid \<noteq> None"
  by (auto simp: store_search_def)

lemma handle_follow_up_ensure [simp]:
  "handle_follow_up_question (ensure_session convs sid) msg sid' =
     handle_follow_up_question convs msg sid'"
  by (simp add: handle_follow_up_question_def)

text \<open>The paths of \<open>process_query\<close>, one lemma each.\<close>

lemma process_query_raises:
  "handle_follow_up_question convs msg sid = Inl e \<Longrightarrow>
   process_query w convs msg sid = (Inl e, ensure_session convs sid)"
  by (simp add: process_query_def)

lemma process_query_follow_up:
  "handle_follow_up_question convs msg sid = Inr (Some t) \<Longrightarrow> t \<noteq> [] \<Longrightarrow>
   process_query w convs msg sid =
     (Inr t, append_history (ensure_session convs sid) sid msg t)"
  by (simp add: process_query_def)

lemma process_query_not_found:
  "handle_follow_up_question convs msg sid = Inr None \<Longrightarrow>
   extract_location_from_query w msg = Some loc \<Longrightarrow> loc \<noteq> [] \<Longrightarrow>
   geocode_location w loc = None \<Longrightarrow>
   process_query w convs msg sid =
     (Inr (not_found_text loc),
      append_history (ensure_session convs sid) sid msg (not_found_text loc))"
  by (simp add: process_query_def)

lemma process_query_search:
  "handle_follow_up_question convs msg sid = Inr None \<Longrightarrow>
   extract_location_from_query w msg = Some loc \<Longrightarrow> loc \<noteq> [] \<Longrightarrow>
   geocode_location w loc = Some info \<Longrightarrow>
   process_query w convs msg sid =
     (Inr (generate_ai_response (llm_search w) (final_spots w info)),
      append_history
        (store_search (ensure_session convs sid) sid
           \<lparr>spots = final_spots w info, location = city info\<rparr>)
        sid msg (generate_ai_response (llm_search w) (final_spots w info)))"
  by (simp add: process_query_def final_spots_def Let_def)

lemma process_query_chat_reply:
  "handle_follow_up_question convs msg sid = Inr None \<Longrightarrow>
   extract_location_from_query w msg = None \<or> extract_location_from_query w msg = Some [] \<Longrightarrow>
   llm_chat w = Reply r \<Longrightarrow>
   process_query w convs msg sid = (Inr r, append_history (ensure_session convs sid) sid msg r)"
  by (auto simp: process_query_def)

lemma process_query_chat_fallback:
  "handle_follow_up_question convs msg sid = Inr None \<Longrightarrow>
   extract_location_from_query w msg = None \<or> extract_location_from_query w msg = Some [] \<Longrightarrow>
   llm_chat w = NoChoices \<or> llm_chat w = Failure \<Longrightarrow>
   process_query w convs msg sid = (Inr greeting_text, ensure_session convs sid)"
  by (auto simp: process_query_def)

section \<open>Follow-up resolver: when it returns\<close>

lemma min_from_member:
  "\<forall>y \<in> set ys. \<exists>k. f y = Inr k \<Longrightarrow>
   \<exists>m \<in> insert best (set ys). min_from f best bk ys = Inr m"
proof (induction ys arbitrary: best bk)
  case Nil
  then show ?case by simp
next
  case (Cons y ys)
  then obtain k where k: "f y = Inr k" by auto
  from Cons.prems have rest: "\<forall>z \<in> set ys. \<exists>k. f z = Inr k" by simp
  show ?case
  proof (cases "k < bk")
    case True
    with k Cons.IH [OF rest, of y k] show ?thesis by auto
  next
    case False
    with k Cons.IH [OF rest, of best bk] show ?thesis by auto
  qed
qed

lemma min_by_member:
  "xs \<noteq> [] \<Longrightarrow> \<forall>x \<in> set xs. \<exists>k. f x = Inr k \<Longrightarrow> \<exists>m \<in> set xs. min_by f xs = Inr m"
proof (cases xs)
  case Nil
  assume "xs \<noteq> []"
  with Nil show ?thesis by simp
next
  case (Cons x rest)
  assume all: "\<forall>x \<in> set xs. \<exists>k. f x = Inr k"
  with Cons obtain k where k: "f x = Inr k" by auto
  from all Cons have "\<forall>y \<in> set rest. \<exists>k. f y = Inr k" by simp
  from min_from_member [OF this, of x k] k Cons show ?thesis
    by (auto simp: min_by_def)
qed


lemma well_formed_spotD:
  assumes "well_formed_spot s"
  shows "\<exists>nm n p r q. map_of s ''name'' = Some (JStr nm)
           \<and> map_of s ''walking_time'' = Some (JInt n)
           \<and> map_of s ''pricing'' = Some (JDict p)
           \<and> map_of p ''hourly_rate'' = Some (JStr r)
           \<and> py_float (remove_all currency r) = Inr q"
proof -
  from assms have
    a: "case map_of s ''name'' of Some (JStr _) \<Rightarrow> True | _ \<Rightarrow> False" and
    b: "case map_of s ''walking_time'' of Some (JInt _) \<Rightarrow> True | _ \<Rightarrow> False" and
    c: "case map_of s ''pricing'' of
            Some (JDict p) \<Rightarrow>
              (case map_of p ''hourly_rate'' of
                 Some (JStr r) \<Rightarrow>
                   (case py_float (remove_all currency r) of Inr _ \<Rightarrow> True | Inl _ \<Rightarrow> False)
               | _ \<Rightarrow> False)
          | _ \<Rightarrow> False"
    by (simp_all add: well_formed_spot_def)
  from a obtain nm where "map_of s ''name'' = Some (JStr nm)"
    by (auto split: option.splits jv.splits)
  moreover from b obtain n where "map_of s ''walking_time'' = Some (JInt n)"
    by (auto split: option.splits jv.splits)
  moreover from c obtain p where p: "map_of s ''pricing'' = Some (JDict p)"
    and c': "case map_of p ''hourly_rate'' of
                 Some (JStr r) \<Rightarrow>
                   (case py_float (remove_all currency r) of Inr _ \<Rightarrow> True | Inl _ \<Rightarrow> False)
               | _ \<Rightarrow> False"
    by (auto split: option.splits jv.splits)
  from c' obtain r where r: "map_of p ''hourly_rate'' = Some (JStr r)"
    and c'': "case py_float (remove_all currency r) of Inr _ \<Rightarrow> True | Inl _ \<Rightarrow> False"
    by (auto split: option.splits jv.splits)
  from c'' obtain q where "py_float (remove_all currency r) = Inr q"
    by (auto split: sum.splits)
  ultimately show ?thesis using p r by blast
qed

lemma follow_up_returns:
  assumes ls: "last_search_of convs sid = Some r" and ne: "spots r \<noteq> []"
    and wf: "\<forall>s \<in> set (spots r). well_formed_spot s"
  shows "\<exists>x. handle_follow_up_question convs msg sid = Inr x \<and> x \<noteq> Some []"
proof (cases "any_in [''best'', ''recommend'', ''suggest'', ''which''] (lower msg)")
  case False
  with ls show ?thesis by (simp add: handle_follow_up_question_def Let_def)
next
  case True
  from ne obtain top rest where sp: "spots r = top # rest" by (cases "spots r") auto
  have hk: "\<forall>s \<in> set (spots r). \<exists>q. hourly_key s = Inr q"
  proof
    fix s assume "s \<in> set (spots r)"
    with wf have "well_formed_spot s" by blast
    from well_formed_spotD [OF this] show "\<exists>q. hourly_key s = Inr q"
      by (auto simp: hourly_key_def py_get_def)
  qed
  from min_by_member [OF ne hk] obtain cheapest where
    ch: "cheapest \<in> set (spots r)" "min_by hourly_key (spots r) = Inr cheapest" by blast
  have wk: "\<forall>s \<in> set (spots r). \<exists>n. walking_key s = Inr n"
  proof
    fix s assume "s \<in> set (spots r)"
    with wf have "well_formed_spot s" by blast
    from well_formed_spotD [OF this] show "\<exists>n. walking_key s = Inr n"
      by (auto simp: walking_key_def py_get_def)
  qed
  from min_by_member [OF ne wk] obtain closest where
    cl: "closest \<in> set (spots r)" "min_by walking_key (spots r) = Inr closest" by blast
  from wf sp have "well_formed_spot top" by simp
  from well_formed_spotD [OF this] obtain tn where tn: "fmt_item top ''name'' = Inr tn"
    by (auto simp: fmt_item_def py_item_def bind_err_def fmt_value_def)
  from wf ch have "well_formed_spot cheapest" by blast
  from well_formed_spotD [OF this] obtain cn cr where
    cn: "fmt_item cheapest ''name'' = Inr cn" and
    cr: "fmt_item2 cheapest ''pricing'' ''hourly_rate'' = Inr cr"
    by (auto simp: fmt_item2_def fmt_item_def py_item_def bind_err_def fmt_value_def)
  from wf cl have "well_formed_spot closest" by blast
  from well_formed_spotD [OF this] obtain ln lw where
    ln: "fmt_item closest ''name'' = Inr ln" and
    lw: "fmt_item closest ''walking_time'' = Inr lw"
    by (auto simp: fmt_item_def py_item_def bind_err_def fmt_value_def)
  show ?thesis
    using True ls sp ch(2) cl(2) tn cn cr ln lw
    by (simp add: handle_follow_up_question_def Let_def bind_err_def)
qed

lemma follow_up_unset:
  "last_search_of convs sid = None \<Longrightarrow> handle_follow_up_question convs msg sid = Inr None"
  by (simp add: handle_follow_up_question_def)

section \<open>What a search turn stores\<close>

lemma fmt_rates:
  "fmt_f 2 4 = ''4.00''" "fmt_f 2 (32 / 10) = ''3.20''" "fmt_f 2 3 = ''3.00''"
  "fmt_f 2 (24 / 10) = ''2.40''" "fmt_f 2 (28 / 10) = ''2.80''" "fmt_f 2 (26 / 10) = ''2.60''"
  "fmt_f 2 2 = ''2.00''"
  by (simp_all add: fmt_f_def Let_def round_half_even_def floor_numeral_div show_nat.simps
        digit_char_def)

lemma parse_rates:
  "py_float (remove_all currency (currency @ ''4.00'')) = Inr 4"
  "py_float (remove_all currency (currency @ ''3.20'')) = Inr (32 / 10)"
  "py_float (remove_all currency (currency @ ''3.00'')) = Inr 3"
  "py_float (remove_all currency (currency @ ''2.40'')) = Inr (24 / 10)"
  "py_float (remove_all currency (currency @ ''2.80'')) = Inr (28 / 10)"
  "py_float (remove_all currency (currency @ ''2.60'')) = Inr (26 / 10)"
  "py_float (remove_all currency (currency @ ''2.00'')) = Inr 2"
  "py_float (remove_all currency (currency @ ''3.50'')) = Inr (35 / 10)"
  "py_float (remove_all currency (currency @ ''2.20'')) = Inr (22 / 10)"
  "py_float (remove_all currency (currency @ ''1.80'')) = Inr (18 / 10)"
  by (simp_all add: py_float_def currency_def is_digit_def digits_val_def digit_val_def)

lemma rate_parses:
  "py_float (remove_all currency (currency @ fmt_f 2 (base_rate t d))) = Inr (base_rate t d)"
  using fmt_rates parse_rates by (simp add: base_rate_def)

lemma processed_well_formed:
  "process_parking_spot cd h spot ula ulo = Some d \<Longrightarrow> well_formed_spot d"
  by (auto simp: process_parking_spot_def Let_def well_formed_spot_def estimate_pricing_def
        rate_parses split: if_splits)

lemma mock_well_formed: "s \<in> set (generate_mock_data w info) \<Longrightarrow> well_formed_spot s"
  by (auto simp: generate_mock_data_def Let_def well_formed_spot_def parse_rates)

lemma final_spots_cases:
  "final_spots w info =
     (if length (search_parking w (lat info) (lng info)) < 5
      then search_parking w (lat info) (lng info) @ generate_mock_data w info
      else search_parking w (lat info) (lng info))"
  by (simp add: final_spots_def backfill_cases)

lemma final_spots_members:
  "s \<in> set (final_spots w info) \<Longrightarrow>
   s \<in> set (generate_mock_data w info)
   \<or> (\<exists>raw. process_parking_spot (calculate_distance w) (current_hour w) raw (lat info) (lng info)
               = Some s)"
  using set_search_parking [of w "lat info" "lng info"]
  by (auto simp: final_spots_cases dest: gather_processed split: if_splits)

lemma final_well_formed: "s \<in> set (final_spots w info) \<Longrightarrow> well_formed_spot s"
  by (auto dest!: final_spots_members intro: mock_well_formed processed_well_formed)


lemma length_final_le: "length (final_spots w info) \<le> 10"
  by (simp add: final_spots_def length_backfill_le length_search_parking)

lemma length_final_ge: "4 \<le> length (final_spots w info)"
  by (simp add: final_spots_def length_backfill_ge)

lemma stored_by_search_empty: "stored_by_search Map.empty"
  by (simp add: stored_by_search_def last_search_of_def)

lemma stored_by_searchD:
  "stored_by_search convs \<Longrightarrow> last_search_of convs sid = Some r \<Longrightarrow>
   4 \<le> length (spots r) \<and> length (spots r) \<le> 10 \<and> (\<forall>s \<in> set (spots r). well_formed_spot s)"
proof -
  assume "stored_by_search convs" "last_search_of convs sid = Some r"
  then obtain w info where "spots r = final_spots w info"
    unfolding stored_by_search_def by blast
  then show ?thesis
    by (simp add: length_final_ge length_final_le final_well_formed)
qed

lemma follow_up_total:
  assumes "stored_by_search convs"
  shows "\<exists>x. handle_follow_up_question convs msg sid = Inr x \<and> x \<noteq> Some []"
proof (cases "last_search_of convs sid")
  case None
  then show ?thesis by (simp add: follow_up_unset)
next
  case (Some r)
  from stored_by_searchD [OF assms Some] have "spots r \<noteq> []"
    and "\<forall>s \<in> set (spots r). well_formed_spot s" by auto
  from follow_up_returns [OF Some this] show ?thesis .
qed

lemma process_query_preserves:
  assumes inv: "stored_by_search convs"
  shows "\<exists>t convs'. process_query w convs msg sid = (Inr t, convs') \<and> stored_by_search convs'"
proof -
  have inv': "stored_by_search (ensure_session convs sid)"
    using inv by (simp add: stored_by_search_def)
  have app: "\<And>c u a. stored_by_search c \<Longrightarrow> stored_by_search (append_history c sid u a)"
    by (simp add: stored_by_search_def)
  from follow_up_total [OF inv, of msg sid] obtain x where
    x: "handle_follow_up_question convs msg sid = Inr x" "x \<noteq> Some []" by blast
  show ?thesis
  proof (cases x)
    case (Some t)
    with x have "t \<noteq> []" by simp
    from process_query_follow_up [OF x(1) [unfolded Some] this] app [OF inv']
    show ?thesis by auto
  next
    case None
    note fu = x(1) [unfolded None]
    show ?thesis
    proof (cases "extract_location_from_query w msg = None
                  \<or> extract_location_from_query w msg = Some []")
      case True
      show ?thesis
      proof (cases "llm_chat w")
        case (Reply r)
        from process_query_chat_reply [OF fu True Reply] app [OF inv'] show ?thesis by auto
      next
        case NoChoices
        with process_query_chat_fallback [OF fu True] inv' show ?thesis by auto
      next
        case Failure
        with process_query_chat_fallback [OF fu True] inv' show ?thesis by auto
      qed
    next
      case False
      then obtain loc where loc: "extract_location_from_query w msg = Some loc" "loc \<noteq> []"
        by auto
      show ?thesis
      proof (cases "geocode_location w loc")
        case None
        from process_query_not_found [OF fu loc None] app [OF inv'] show ?thesis by auto
      next
        case (Some info)
        have "stored_by_search
                (store_search (ensure_session convs sid) sid
                   \<lparr>spots = final_spots w info, location = city info\<rparr>)"
          using inv' unfolding stored_by_search_def
          by (auto simp: last_search_of_store ensure_session_defined split: if_splits)
        from process_query_search [OF fu loc Some] app [OF this] show ?thesis by auto
      qed
    qed
  qed
qed

lemma run_preserves:
  "stored_by_search convs \<Longrightarrow> \<exists>convs'. run convs es = Inr convs' \<and> stored_by_search convs'"
proof (induction es arbitrary: convs)
  case Nil
  then show ?case by simp
next
  case (Cons e es)
  from process_query_preserves [OF Cons.prems, of "ev_world e" "ev_input e" "ev_session e"]
  obtain t convs1 where
    step: "process_query (ev_world e) convs (ev_input e) (ev_session e) = (Inr t, convs1)"
    and inv1: "stored_by_search convs1" by blast
  from Cons.IH [OF inv1] step show ?case by simp
qed

section \<open>The claims about turns and lists\<close>



lemma world_turn_fields:
  "extract_location_from_query sparse_world msg = Some ''Trafalgar Square''"
  "geocode_location sparse_world loc = Some demo_info"
  "extract_location_from_query quiet_world msg = Some ''Trafalgar Square''"
  "geocode_location quiet_world loc = Some demo_info"
  "extract_location_from_query lost_world msg = Some ''Zzyzxville''"
  "geocode_location lost_world loc = None"
  "extract_location_from_query chat_world msg = None"
  "llm_chat chat_world = Failure"
  by (simp_all add: sparse_world_def quiet_world_def lost_world_def chat_world_def)

lemma last_search_of_empty: "last_search_of Map.empty sid = None"
  by (simp add: last_search_of_def)

lemma history_of_empty: "history_of Map.empty sid = []"
  by (simp add: history_of_def)

lemma sparse_first_query:
  "process_query sparse_world Map.empty ''parking near Trafalgar Square'' ''web_session'' =
     (Inr (generate_ai_response (llm_search sparse_world) (final_spots sparse_world demo_info)),
      append_history
        (store_search (ensure_session Map.empty ''web_session'') ''web_session''
           \<lparr>spots = final_spots sparse_world demo_info, location = city demo_info\<rparr>)
        ''web_session'' ''parking near Trafalgar Square''
        (generate_ai_response (llm_search sparse_world) (final_spots sparse_world demo_info)))"
  by (rule process_query_search [where loc = "''Trafalgar Square''"])
     (simp_all add: follow_up_unset last_search_of_empty world_turn_fields)

lemma first_search_turn:
  "\<exists>convs. run Map.empty [search_turn sparse_world] = Inr convs
     \<and> last_search_of convs ''web_session''
         = Some \<lparr>spots = final_spots sparse_world demo_info, location = ''London''\<rparr>"
  by (simp add: search_turn_def sparse_first_query last_search_of_store ensure_session_defined
        demo_info_def)



text \<open>
  C3. The list that the search returns and the list after the backfill have at most ten
  entries, and so has every search result stored in a session after any sequence of turns.
\<close>

theorem final_list_at_most_ten:
  "length (search_parking w la lo) \<le> 10
   \<and> length (final_spots w info) \<le> 10
   \<and> (\<forall>convs sid r. run Map.empty es = Inr convs \<and> last_search_of convs sid = Some r
         \<longrightarrow> length (spots r) \<le> 10)"
proof (intro conjI allI impI)
  show "length (search_parking w la lo) \<le> 10" by (rule length_search_parking)
  show "length (final_spots w info) \<le> 10" by (rule length_final_le)
next
  fix convs sid r
  assume a: "run Map.empty es = Inr convs \<and> last_search_of convs sid = Some r"
  from run_preserves [OF stored_by_search_empty, of es] a have "stored_by_search convs" by auto
  from stored_by_searchD [OF this] a show "length (spots r) \<le> 10" by blast
qed

text \<open>C3 at a conversation of one search turn.\<close>

theorem final_list_at_most_ten_witness:
  "\<exists>convs r. run Map.empty [search_turn sparse_world] = Inr convs
     \<and> last_search_of convs ''web_session'' = Some r
     \<and> length (spots r) \<le> 10"
proof -
  from first_search_turn obtain convs where
    c: "run Map.empty [search_turn sparse_world] = Inr convs"
       "last_search_of convs ''web_session''
         = Some \<lparr>spots = final_spots sparse_world demo_info, location = ''London''\<rparr>"
    by blast
  with final_list_at_most_ten [of sparse_world 0 0 demo_info "[search_turn sparse_world]"]
  have "length (spots \<lparr>spots = final_spots sparse_world demo_info, location = ''London''\<rparr>) \<le> 10"
    by blast
  with c show ?thesis by blast
qed

text \<open>
  On every path but one a completed turn appends its pair to the history of the session: the
  exception is the greeting returned when a message has no place and the language model
  gives no reply.
\<close>

lemma turn_recorded_unless_chat_fallback:
  assumes inv: "stored_by_search convs"
    and step: "process_query w convs msg sid = (Inr t, convs')"
  shows "history_of convs' sid = history_of convs sid @ [\<lparr>user = msg, assistant = t\<rparr>]
         \<or> (history_of convs' sid = history_of convs sid \<and> t = greeting_text
             \<and> (llm_chat w = NoChoices \<or> llm_chat w = Failure))"
proof -
  note hist = history_of_append [OF ensure_session_defined]
  from follow_up_total [OF inv, of msg sid] obtain x where
    x: "handle_follow_up_question convs msg sid = Inr x" "x \<noteq> Some []" by blast
  show ?thesis
  proof (cases x)
    case (Some u)
    with x have "u \<noteq> []" by simp
    from process_query_follow_up [OF x(1) [unfolded Some] this, of w] step show ?thesis
      by (auto simp: hist)
  next
    case None
    note fu = x(1) [unfolded None]
    show ?thesis
    proof (cases "extract_location_from_query w msg = None
                  \<or> extract_location_from_query w msg = Some []")
      case True
      show ?thesis
      proof (cases "llm_chat w")
        case (Reply r)
        from process_query_chat_reply [OF fu True Reply] step show ?thesis
          by (auto simp: hist)
      next
        case NoChoices
        with process_query_chat_fallback [OF fu True] step show ?thesis by auto
      next
        case Failure
        with process_query_chat_fallback [OF fu True] step show ?thesis by auto
      qed
    next
      case False
      then obtain loc where loc: "extract_location_from_query w msg = Some loc" "loc \<noteq> []"
        by auto
      show ?thesis
      proof (cases "geocode_location w loc")
        case None
        from process_query_not_found [OF fu loc None] step show ?thesis
          by (auto simp: hist)
      next
        case (Some info)
        from process_query_search [OF fu loc Some] step show ?thesis
          by (auto simp: history_of_append store_search_defined ensure_session_defined)
      qed
    qed
  qed
qed

text \<open>
  C4: every completed turn appends one pair to the history. A message without a place, sent
  while the language model is down, is answered with the greeting and leaves the history
  empty.
\<close>

theorem chat_fallback_not_recorded:
  "fst (process_query chat_world Map.empty ''hello there'' ''web_session'') = Inr greeting_text
   \<and> history_of (snd (process_query chat_world Map.empty ''hello there'' ''web_session''))
        ''web_session'' = []"
proof -
  have "process_query chat_world Map.empty ''hello there'' ''web_session''
          = (Inr greeting_text, ensure_session Map.empty ''web_session'')"
    by (rule process_query_chat_fallback)
       (simp_all add: follow_up_unset last_search_of_empty world_turn_fields)
  then show ?thesis by (simp add: history_of_empty)
qed




text \<open>
  C10. After any sequence of turns from the empty store no turn has raised; every stored
  search result has at least four spots, each with a name, an integer walking time and an
  hourly rate that reads as a number once the currency prefix is removed; and the follow-up
  resolver returns for every message and session.
\<close>

theorem follow_up_never_fails:
  "\<exists>convs. run Map.empty es = Inr convs
     \<and> (\<forall>sid r. last_search_of convs sid = Some r \<longrightarrow>
           4 \<le> length (spots r) \<and> list_all well_formed_spot (spots r))
     \<and> (\<forall>msg sid. returns (handle_follow_up_question convs msg sid))"
proof -
  from run_preserves [OF stored_by_search_empty, of es] obtain convs where
    r: "run Map.empty es = Inr convs" and inv: "stored_by_search convs" by blast
  have "\<forall>sid r. last_search_of convs sid = Some r \<longrightarrow>
           4 \<le> length (spots r) \<and> list_all well_formed_spot (spots r)"
    using stored_by_searchD [OF inv] by (simp add: list_all_iff)
  moreover have "\<forall>msg sid. returns (handle_follow_up_question convs msg sid)"
  proof (intro allI)
    fix msg sid
    from follow_up_total [OF inv, of msg sid] show "returns (handle_follow_up_question convs msg sid)"
      by (auto simp: returns_def)
  qed
  ultimately show ?thesis using r by blast
qed

text \<open>C10 at a conversation of one search turn, asked "which is best?" afterwards.\<close>

theorem follow_up_never_fails_witness:
  "\<exists>convs r. run Map.empty [search_turn sparse_world] = Inr convs
     \<and> last_search_of convs ''web_session'' = Some r
     \<and> 4 \<le> length (spots r) \<and> list_all well_formed_spot (spots r)
     \<and> returns (handle_follow_up_question convs ''which is best?'' ''web_session'')"
proof -
  from follow_up_never_fails [of "[search_turn sparse_world]"] obtain convs where
    c: "run Map.empty [search_turn sparse_world] = Inr convs"
       "\<forall>sid r. last_search_of convs sid = Some r \<longrightarrow>
           4 \<le> length (spots r) \<and> list_all well_formed_spot (spots r)"
       "\<forall>msg sid. returns (handle_follow_up_question convs msg sid)" by blast
  from first_search_turn c(1) have
    "last_search_of convs ''web_session''
       = Some \<lparr>spots = final_spots sparse_world demo_info, location = ''London''\<rparr>"
    by auto
  with c show ?thesis by blast
qed

subsection \<open>The backfill trigger, and the scenario with five car parks\<close>









end
